theory Spec2Isabelle
  imports Main
begin

section \<open>Python values and JSON documents\<close>

text \<open>
  The entity of \<^verbatim>\<open>atoms_core/entities/atom.py\<close> is dynamically typed: the constructor
  stores whatever it is given, and \<^verbatim>\<open>from_dict\<close> hands the values of a parsed manifest to
  it unchecked. The fields are therefore Python values. A \<^verbatim>\<open>str\<close> is a list of code points
  below 256; floats are not part of the value universe. A \<^verbatim>\<open>dict\<close> with string keys is an
  association list in insertion order, read with \<open>map_of\<close>.
\<close>

datatype pyval =
    PNone
  | PBool bool
  | PInt int
  | PStr string
  | PList "pyval list"
  | PTuple "pyval list"
  | PDict "(string \<times> pyval) list"

type_synonym pydict = "(string \<times> pyval) list"

text \<open>Truth value testing, as \<^verbatim>\<open>if x\<close>, \<^verbatim>\<open>x or y\<close> and \<^verbatim>\<open>x and y\<close> do it.\<close>

fun truthy :: "pyval \<Rightarrow> bool" where
  "truthy PNone = False"
| "truthy (PBool b) = b"
| "truthy (PInt i) = (i \<noteq> 0)"
| "truthy (PStr s) = (s \<noteq> [])"
| "truthy (PList xs) = (xs \<noteq> [])"
| "truthy (PTuple xs) = (xs \<noteq> [])"
| "truthy (PDict kvs) = (kvs \<noteq> [])"

text \<open>\<^verbatim>\<open>x or y\<close> as an expression: \<^verbatim>\<open>x\<close> when it is true, else \<^verbatim>\<open>y\<close>.\<close>

definition py_or :: "pyval \<Rightarrow> pyval \<Rightarrow> pyval" where
  "py_or x y = (if truthy x then x else y)"

text \<open>
  \<^verbatim>\<open>str.strip()\<close> without arguments removes leading and trailing whitespace; among the
  code points below 256 \<^verbatim>\<open>str.isspace\<close> holds for 9 to 13, 28 to 32, 133 and 160.
\<close>

definition is_space :: "char \<Rightarrow> bool" where
  "is_space c = ((of_char c :: nat) \<in> {9, 10, 11, 12, 13, 28, 29, 30, 31, 32, 133, 160})"

definition strip :: "string \<Rightarrow> string" where
  "strip s = rev (dropWhile is_space (rev (dropWhile is_space s)))"

text \<open>\<^verbatim>\<open>os.path.join(a, b)\<close> of \<^verbatim>\<open>posixpath\<close>, for two components.\<close>

definition os_path_join :: "string \<Rightarrow> string \<Rightarrow> string" where
  "os_path_join a b =
     (if b \<noteq> [] \<and> hd b = CHR ''/'' then b
      else if a = [] \<or> last a = CHR ''/'' then a @ b
      else a @ ''/'' @ b)"

subsection \<open>Dictionaries\<close>

text \<open>\<^verbatim>\<open>d.get(k)\<close>, \<^verbatim>\<open>k in d\<close> and \<^verbatim>\<open>d[k] = v\<close>.\<close>

definition dict_get :: "pydict \<Rightarrow> string \<Rightarrow> pyval" where
  "dict_get d k = (case map_of d k of None \<Rightarrow> PNone | Some v \<Rightarrow> v)"

definition dict_contains :: "pydict \<Rightarrow> string \<Rightarrow> bool" where
  "dict_contains d k = (map_of d k \<noteq> None)"

fun dict_set :: "pydict \<Rightarrow> string \<Rightarrow> pyval \<Rightarrow> pydict" where
  "dict_set [] k v = [(k, v)]"
| "dict_set ((k', v') # d) k v =
     (if k' = k then (k, v) # d else (k', v') # dict_set d k v)"

subsection \<open>Errors\<close>

text \<open>
  The module imports \<^verbatim>\<open>AtomsWrongAtomData\<close> and \<^verbatim>\<open>AtomsConfigFileNotFound\<close> from
  \<^verbatim>\<open>atoms_core.exceptions.atom\<close> and nothing else from there. The other constructors are
  Python's built-in exceptions and the two of \<^verbatim>\<open>orjson\<close>.
\<close>

datatype error =
    AtomsWrongAtomData pydict
  | AtomsConfigFileNotFound string
  | NameError string
  | AttributeError string
  | KeyError string
  | TypeError string
  | OSError string
  | JSONDecodeError
  | JSONEncodeError
  | UnicodeDecodeError

text \<open>\<^verbatim>\<open>d[k]\<close> as an expression raises \<^verbatim>\<open>KeyError\<close> on a missing key.\<close>

definition subscript :: "pydict \<Rightarrow> string \<Rightarrow> error + pyval" where
  "subscript d k = (case map_of d k of None \<Rightarrow> Inl (KeyError k) | Some v \<Rightarrow> Inr v)"

text \<open>Sequencing of computations that may raise.\<close>

definition raising :: "error + 'a \<Rightarrow> ('a \<Rightarrow> error + 'b) \<Rightarrow> error + 'b" where
  "raising m f = (case m of Inl e \<Rightarrow> Inl e | Inr x \<Rightarrow> f x)"

subsection \<open>JSON documents and the \<^verbatim>\<open>orjson\<close> codec\<close>

text \<open>
  A manifest file holds a JSON document. \<^verbatim>\<open>orjson.dumps\<close> writes lists and tuples alike
  as arrays; \<^verbatim>\<open>orjson.loads\<close> reads an array as a list and keeps, for a key written more
  than once, the last value. The numbers of a document are the integers that
  \<^verbatim>\<open>orjson.loads\<close> reads as \<^verbatim>\<open>int\<close>, those of 64 bits; a document with a fraction, an
  exponent or a longer integer is read with a float and is, like every float, outside the
  documents and values described here.
\<close>

datatype json =
    JNull
  | JBool bool
  | JNum int
  | JStr string
  | JArr "json list"
  | JObj "(string \<times> json) list"

primrec to_json :: "pyval \<Rightarrow> json" where
  "to_json PNone = JNull"
| "to_json (PBool b) = JBool b"
| "to_json (PInt i) = JNum i"
| "to_json (PStr s) = JStr s"
| "to_json (PList xs) = JArr (map to_json xs)"
| "to_json (PTuple xs) = JArr (map to_json xs)"
| "to_json (PDict kvs) = JObj (map (map_prod id to_json) kvs)"

definition dict_of_pairs :: "(string \<times> pyval) list \<Rightarrow> pydict" where
  "dict_of_pairs kvs = fold (\<lambda>(k, v) d. dict_set d k v) kvs []"

primrec orjson_loads :: "json \<Rightarrow> pyval" where
  "orjson_loads JNull = PNone"
| "orjson_loads (JBool b) = PBool b"
| "orjson_loads (JNum i) = PInt i"
| "orjson_loads (JStr s) = PStr s"
| "orjson_loads (JArr xs) = PList (map orjson_loads xs)"
| "orjson_loads (JObj kvs) = PDict (dict_of_pairs (map (map_prod id orjson_loads) kvs))"

section \<open>The world outside the entity\<close>

text \<open>
  A file holds a JSON document, or text that is no JSON document (an empty file among
  them), or bytes that the text-mode \<^verbatim>\<open>f.read()\<close> cannot decode. The encoding of text
  files is taken to be UTF-8, the encoding \<^verbatim>\<open>orjson.dumps\<close> writes. The world is the
  file system, the paths \<^verbatim>\<open>open(path, "wb")\<close> succeeds on, the process environment,
  what \<^verbatim>\<open>datetime.datetime.now().isoformat()\<close> returns and the names
  \<^verbatim>\<open>tempfile.NamedTemporaryFile\<close> hands out, in order.
\<close>

datatype filedata = Json_doc json | Other_bytes string | Undecodable_bytes string

record world =
  files :: "string \<rightharpoonup> filedata"
  writable :: "string \<Rightarrow> bool"
  environ :: "string \<rightharpoonup> string"
  now_isoformat :: string
  tmp_names :: "nat \<Rightarrow> string"
  tmp_count :: nat

text \<open>
  The \<^verbatim>\<open>AtomsInstance\<close> is used for its \<^verbatim>\<open>config\<close> only, which is passed on to the
  path resolver.
\<close>

record 'c atoms_instance =
  config :: 'c

text \<open>
  Collaborators whose code is outside this module, taken as parameters: the path
  resolver \<^verbatim>\<open>AtomsPathsUtils.get_atom_path\<close>, the two command wrappers, and the set of
  values on which the call \<^verbatim>\<open>orjson.dumps(v, f, option=orjson.OPT_NON_STR_KEYS)\<close> of
  \<^verbatim>\<open>save\<close> returns a document instead of raising. Each of the three functions may
  raise.
\<close>

record 'c collaborators =
  get_atom_path :: "'c \<Rightarrow> pyval \<Rightarrow> error + string"
  get_proot_command_for_chroot :: "string \<Rightarrow> pyval \<Rightarrow> pyval \<Rightarrow> error + pyval"
  get_distrobox_command_for_container :: "pyval \<Rightarrow> pyval \<Rightarrow> error + pyval"
  orjson_encodable :: "pyval \<Rightarrow> bool"

definition orjson_dumps :: "'c collaborators \<Rightarrow> pyval \<Rightarrow> error + json" where
  "orjson_dumps C v = (if orjson_encodable C v then Inr (to_json v) else Inl JSONEncodeError)"

section \<open>The entity\<close>

text \<open>
  The class \<^verbatim>\<open>Atom\<close>: its constructor and the class methods \<^verbatim>\<open>from_dict\<close>,
  \<^verbatim>\<open>load\<close>, \<^verbatim>\<open>load_from_container\<close> and \<^verbatim>\<open>new_system_shell\<close>, the derived
  properties, \<^verbatim>\<open>to_dict\<close> and \<^verbatim>\<open>save\<close>, \<^verbatim>\<open>generate_command\<close> with its three
  branches and the launcher script, \<^verbatim>\<open>rename\<close> and the three bind-mount setters. A
  method that raises returns \<open>Inl\<close> of the error; a method that writes a file or reads
  the clock, the environment or the file system takes the world and, if it changes it,
  returns the new one.
\<close>

text \<open>
  The attributes \<^verbatim>\<open>__init__\<close> sets. \<open>distrobox_wrapper\<close> says whether the attribute
  \<^verbatim>\<open>__distrobox_wrapper\<close> exists: the constructor sets it only under
  \<^verbatim>\<open>if container_id\<close>. The constructors of the wrapper objects are taken to succeed.
\<close>

record 'c atom =
  the_instance :: "'c atoms_instance"
  name :: pyval
  distribution_id :: pyval
  relative_path :: pyval
  creation_date :: pyval
  update_date :: pyval
  container_id :: pyval
  container_image :: pyval
  system_shell :: pyval
  bind_themes :: pyval
  bind_icons :: pyval
  bind_fonts :: pyval
  bind_extra_mounts :: pyval
  distrobox_wrapper :: bool

text \<open>\<^verbatim>\<open>Atom.__init__\<close>; \<^verbatim>\<open>name.strip()\<close> exists for a \<^verbatim>\<open>str\<close> only.\<close>

definition init ::
  "world \<Rightarrow> 'c atoms_instance \<Rightarrow> pyval \<Rightarrow> pyval \<Rightarrow> pyval \<Rightarrow> pyval \<Rightarrow> pyval \<Rightarrow> pyval \<Rightarrow> pyval \<Rightarrow>
   pyval \<Rightarrow> pyval \<Rightarrow> pyval \<Rightarrow> pyval \<Rightarrow> pyval \<Rightarrow> error + 'c atom" where
  "init w inst nm distribution_id' relative_path' creation_date' update_date' container_id'
        container_image' system_shell' bind_themes' bind_icons' bind_fonts' bind_extra_mounts' =
     (let update_date' =
            (if update_date' = PNone \<and> truthy (py_or container_id' system_shell')
             then PStr (now_isoformat w)
             else if update_date' = PNone then creation_date'
             else update_date')
      in case nm of
           PStr s \<Rightarrow>
             Inr \<lparr> the_instance = inst,
                   name = PStr (strip s),
                   distribution_id = distribution_id',
                   relative_path = relative_path',
                   creation_date = creation_date',
                   update_date = update_date',
                   container_id = container_id',
                   container_image = container_image',
                   system_shell = system_shell',
                   bind_themes = bind_themes',
                   bind_icons = bind_icons',
                   bind_fonts = bind_fonts',
                   bind_extra_mounts = py_or bind_extra_mounts' (PList []),
                   distrobox_wrapper = truthy container_id' \<rparr>
         | _ \<Rightarrow> Inl (AttributeError ''strip''))"

definition get_extra_default_options :: pydict where
  "get_extra_default_options =
     [(''bindThemes'', PBool False),
      (''bindIcons'', PBool False),
      (''bindFonts'', PBool False),
      (''bindExtraMounts'', PList [])]"

text \<open>The loop of \<^verbatim>\<open>from_dict\<close> over the default options.\<close>

definition fill_defaults :: "pydict \<Rightarrow> pydict" where
  "fill_defaults data =
     fold (\<lambda>(key, val) data. if \<not> dict_contains data key then dict_set data key val else data)
       get_extra_default_options data"

text \<open>
  \<^verbatim>\<open>Atom.from_dict\<close>. \<^verbatim>\<open>None in [...]\<close> compares with \<^verbatim>\<open>==\<close>, which only
  \<^verbatim>\<open>None\<close> itself satisfies among the values here. The defaults are written into the
  caller's dict; nothing here reads that dict again, so the function returns the entity
  only.
\<close>

definition from_dict :: "world \<Rightarrow> 'c atoms_instance \<Rightarrow> pydict \<Rightarrow> error + 'c atom" where
  "from_dict w inst data =
     (if PNone \<in> set [dict_get data ''name'',
                      dict_get data ''distributionId'',
                      dict_get data ''creationDate'',
                      dict_get data ''updateDate'',
                      dict_get data ''relativePath'']
      then Inl (AtomsWrongAtomData data)
      else
        let data = fill_defaults data in
        raising (subscript data ''name'') (\<lambda>v1.
        raising (subscript data ''distributionId'') (\<lambda>v2.
        raising (subscript data ''relativePath'') (\<lambda>v3.
        raising (subscript data ''creationDate'') (\<lambda>v4.
        raising (subscript data ''updateDate'') (\<lambda>v5.
        raising (subscript data ''bindThemes'') (\<lambda>v6.
        raising (subscript data ''bindIcons'') (\<lambda>v7.
        raising (subscript data ''bindFonts'') (\<lambda>v8.
        raising (subscript data ''bindExtraMounts'') (\<lambda>v9.
          init w inst v1 v2 v3 v4 v5 PNone PNone (PBool False) v6 v7 v8 v9))))))))))"

text \<open>
  \<^verbatim>\<open>Atom.load\<close>: only \<^verbatim>\<open>FileNotFoundError\<close> is caught. \<^verbatim>\<open>f.read()\<close> decodes the
  file before \<^verbatim>\<open>orjson.loads\<close> parses it. A parsed document that is no \<^verbatim>\<open>dict\<close> has
  no \<^verbatim>\<open>get\<close>. A file that exists is taken to be readable.
\<close>

definition load ::
  "'c collaborators \<Rightarrow> world \<Rightarrow> 'c atoms_instance \<Rightarrow> pyval \<Rightarrow> error + 'c atom" where
  "load C w inst relative_path' =
     raising (get_atom_path C (config inst) relative_path') (\<lambda>p.
       let p = os_path_join p ''atom.json'' in
       case files w p of
         None \<Rightarrow> Inl (AtomsConfigFileNotFound p)
       | Some (Undecodable_bytes _) \<Rightarrow> Inl UnicodeDecodeError
       | Some (Other_bytes _) \<Rightarrow> Inl JSONDecodeError
       | Some (Json_doc j) \<Rightarrow>
           (case orjson_loads j of
              PDict data \<Rightarrow> from_dict w inst data
            | _ \<Rightarrow> Inl (AttributeError ''get'')))"

definition load_from_container ::
  "world \<Rightarrow> 'c atoms_instance \<Rightarrow> pyval \<Rightarrow> pyval \<Rightarrow> pyval \<Rightarrow> pyval \<Rightarrow> error + 'c atom" where
  "load_from_container w inst creation_date' container_name container_image' container_id' =
     init w inst container_name PNone PNone creation_date' PNone container_id' container_image'
       (PBool False) (PBool False) (PBool False) (PBool False) PNone"

definition new_system_shell :: "world \<Rightarrow> 'c atoms_instance \<Rightarrow> error + 'c atom" where
  "new_system_shell w inst =
     init w inst (PStr ''system-shell'') PNone PNone PNone PNone PNone PNone
       (PBool True) (PBool False) (PBool False) (PBool False) PNone"

subsection \<open>Derived properties\<close>

definition is_distrobox_container :: "'c atom \<Rightarrow> bool" where
  "is_distrobox_container a = (container_id a \<noteq> PNone)"

definition is_system_shell :: "'c atom \<Rightarrow> pyval" where
  "is_system_shell a = system_shell a"

text \<open>The test \<^verbatim>\<open>self.is_distrobox_container or self.__system_shell\<close>.\<close>

definition not_chroot :: "'c atom \<Rightarrow> bool" where
  "not_chroot a = (is_distrobox_container a \<or> truthy (system_shell a))"

definition path :: "'c collaborators \<Rightarrow> 'c atom \<Rightarrow> error + string" where
  "path C a =
     (if not_chroot a then Inr []
      else get_atom_path C (config (the_instance a)) (relative_path a))"

definition fs_path :: "'c collaborators \<Rightarrow> 'c atom \<Rightarrow> error + string" where
  "fs_path C a =
     (if not_chroot a then Inr []
      else raising (get_atom_path C (config (the_instance a)) (relative_path a))
             (\<lambda>p. Inr (os_path_join p ''chroot'')))"

definition root_path :: "'c collaborators \<Rightarrow> 'c atom \<Rightarrow> error + string" where
  "root_path C a =
     (if not_chroot a then Inr []
      else raising (fs_path C a) (\<lambda>p. Inr (os_path_join p ''root'')))"

definition aid :: "'c atom \<Rightarrow> pyval" where
  "aid a = (if not_chroot a then container_id a else relative_path a)"

text \<open>
  \<^verbatim>\<open>mounts += x\<close> extends the list by the elements \<^verbatim>\<open>x\<close> yields when iterated: the
  items of a list or tuple, the characters of a string, the keys of a dict.
\<close>

fun py_iter :: "pyval \<Rightarrow> error + pyval list" where
  "py_iter (PList xs) = Inr xs"
| "py_iter (PTuple xs) = Inr xs"
| "py_iter (PStr s) = Inr (map (\<lambda>c. PStr [c]) s)"
| "py_iter (PDict kvs) = Inr (map (\<lambda>kv. PStr (fst kv)) kvs)"
| "py_iter PNone = Inl (TypeError ''NoneType object is not iterable'')"
| "py_iter (PBool b) = Inl (TypeError ''bool object is not iterable'')"
| "py_iter (PInt i) = Inl (TypeError ''int object is not iterable'')"

definition themes_mount :: pyval where
  "themes_mount = PTuple [PStr ''/usr/share/themes'', PStr ''/usr/share/themes'']"

definition icons_mount :: pyval where
  "icons_mount = PTuple [PStr ''/usr/share/icons'', PStr ''/usr/share/icons'']"

definition fonts_mount :: pyval where
  "fonts_mount = PTuple [PStr ''/usr/share/fonts'', PStr ''/usr/share/fonts'']"

definition bind_mounts :: "'c atom \<Rightarrow> error + pyval list" where
  "bind_mounts a =
     (let mounts = [];
          mounts = (if truthy (bind_themes a) then mounts @ [themes_mount] else mounts);
          mounts = (if truthy (bind_icons a) then mounts @ [icons_mount] else mounts);
          mounts = (if truthy (bind_fonts a) then mounts @ [fonts_mount] else mounts)
      in if truthy (bind_extra_mounts a)
         then raising (py_iter (bind_extra_mounts a)) (\<lambda>xs. Inr (mounts @ xs))
         else Inr mounts)"

subsection \<open>Persistence\<close>

definition to_dict :: "'c atom \<Rightarrow> pydict" where
  "to_dict a =
     [(''name'', name a),
      (''distributionId'', distribution_id a),
      (''relativePath'', relative_path a),
      (''creationDate'', creation_date a),
      (''updateDate'', update_date a),
      (''bindThemes'', bind_themes a),
      (''bindIcons'', bind_icons a),
      (''bindFonts'', bind_fonts a),
      (''bindExtraMounts'', bind_extra_mounts a)]"

text \<open>
  \<^verbatim>\<open>Atom.save\<close>. The name \<^verbatim>\<open>AtomsCannotSavePodmanContainers\<close> is neither imported nor
  defined in the module, so evaluating it for the \<^verbatim>\<open>raise\<close> is a \<^verbatim>\<open>NameError\<close>.
  \<^verbatim>\<open>open(path, "wb")\<close> truncates the file before \<^verbatim>\<open>orjson.dumps\<close> runs.
\<close>

definition save :: "'c collaborators \<Rightarrow> 'c atom \<Rightarrow> world \<Rightarrow> (error + unit) \<times> world" where
  "save C a w =
     (if not_chroot a then (Inl (NameError ''AtomsCannotSavePodmanContainers''), w)
      else
        case path C a of
          Inl e \<Rightarrow> (Inl e, w)
        | Inr p \<Rightarrow>
            let p = os_path_join p ''atom.json'' in
            if \<not> writable w p then (Inl (OSError p), w)
            else
              let w = w\<lparr>files := (files w)(p \<mapsto> Other_bytes [])\<rparr> in
              (case orjson_dumps C (PDict (to_dict a)) of
                 Inl e \<Rightarrow> (Inl e, w)
               | Inr j \<Rightarrow> (Inr (), w\<lparr>files := (files w)(p \<mapsto> Json_doc j)\<rparr>)))"

subsection \<open>Command synthesis\<close>

text \<open>\<^verbatim>\<open>xs + c\<close> for a list \<^verbatim>\<open>xs\<close>: defined when \<^verbatim>\<open>c\<close> is a list as well.\<close>

definition list_concat :: "pyval list \<Rightarrow> pyval \<Rightarrow> error + pyval" where
  "list_concat xs c =
     (case c of
        PList ys \<Rightarrow> Inr (PList (xs @ ys))
      | _ \<Rightarrow> Inl (TypeError ''can only concatenate list to list''))"

definition generate_proot_command ::
  "'c collaborators \<Rightarrow> 'c atom \<Rightarrow> pyval \<Rightarrow> pyval \<Rightarrow> error + pyval \<times> pyval \<times> pyval" where
  "generate_proot_command C a command environment =
     (let environment = (if environment = PNone then PList [] else environment) in
      raising (fs_path C a) (\<lambda>fp.
      raising (bind_mounts a) (\<lambda>ms.
      raising (get_proot_command_for_chroot C fp command (PList ms)) (\<lambda>c.
      raising (root_path C a) (\<lambda>rp.
        Inr (c, environment, PStr rp))))))"

definition generate_distrobox_command ::
  "'c collaborators \<Rightarrow> 'c atom \<Rightarrow> pyval \<Rightarrow> pyval \<Rightarrow> error + pyval \<times> pyval \<times> pyval" where
  "generate_distrobox_command C a command environment =
     (let environment = (if environment = PNone then PList [] else environment) in
      if \<not> distrobox_wrapper a then Inl (AttributeError ''_Atom__distrobox_wrapper'')
      else
        raising (get_distrobox_command_for_container C (container_id a) command) (\<lambda>c.
        raising (root_path C a) (\<lambda>rp.
          Inr (c, environment, PStr rp))))"

definition generate_system_shell_command :: "world \<Rightarrow> error + pyval \<times> pyval \<times> pyval" where
  "generate_system_shell_command w =
     (case environ w ''SHELL'' of
        None \<Rightarrow> Inl (KeyError ''SHELL'')
      | Some sh \<Rightarrow> Inr (PList [PStr sh], PList [], PStr ''/''))"

text \<open>The launcher script, as the bytes written to the temporary file (UTF-8).\<close>

definition launcher_script :: string where
  "launcher_script =
     ''#!/bin/bash\<newline>while true; do\<newline>    clear\<newline>    $@\<newline>    read -n 1 -s -r -p ''
     @ [CHR 0x22] @ ''Press any [Key] to restart the Atom Console''
     @ [CHR 0xE2, CHR 0x80, CHR 0xA6, CHR 0x22] @ '';\<newline>done\<newline>''"

definition get_launcher_script :: "world \<Rightarrow> string \<times> world" where
  "get_launcher_script w =
     (let f = tmp_names w (tmp_count w)
      in (f, w\<lparr>files := (files w)(f \<mapsto> Other_bytes launcher_script),
               tmp_count := Suc (tmp_count w)\<rparr>))"

definition generate_command ::
  "'c collaborators \<Rightarrow> 'c atom \<Rightarrow> pyval \<Rightarrow> pyval \<Rightarrow> pyval \<Rightarrow> world \<Rightarrow>
   (error + pyval \<times> pyval \<times> pyval) \<times> world" where
  "generate_command C a command environment track_exit w =
     (case (if is_distrobox_container a then generate_distrobox_command C a command environment
            else if truthy (system_shell a) then generate_system_shell_command w
            else generate_proot_command C a command environment) of
        Inl e \<Rightarrow> (Inl e, w)
      | Inr (command, environment, working_directory) \<Rightarrow>
          if truthy track_exit then
            (let (script, w) = get_launcher_script w in
             (raising (list_concat [PStr ''sh'', PStr script] command) (\<lambda>command.
                Inr (command, environment, working_directory)), w))
          else (Inr (command, environment, working_directory), w))"

subsection \<open>Lifecycle operations\<close>

text \<open>
  A method that assigns to \<^verbatim>\<open>self\<close> returns the entity as it is when the method returns
  or raises. \<^verbatim>\<open>AtomsCannotRenamePodmanContainers\<close> is not a name of the module either.
\<close>

definition rename ::
  "'c collaborators \<Rightarrow> 'c atom \<Rightarrow> pyval \<Rightarrow> world \<Rightarrow> (error + unit) \<times> 'c atom \<times> world" where
  "rename C a new_name w =
     (if not_chroot a then (Inl (NameError ''AtomsCannotRenamePodmanContainers''), a, w)
      else
        let a = a\<lparr>name := new_name\<rparr>;
            (r, w) = save C a w
        in (r, a, w))"

definition set_bind_themes ::
  "'c collaborators \<Rightarrow> 'c atom \<Rightarrow> pyval \<Rightarrow> world \<Rightarrow> (error + unit) \<times> 'c atom \<times> world" where
  "set_bind_themes C a status w =
     (let a = a\<lparr>bind_themes := status\<rparr>;
          (r, w) = save C a w
      in (r, a, w))"

definition set_bind_icons ::
  "'c collaborators \<Rightarrow> 'c atom \<Rightarrow> pyval \<Rightarrow> world \<Rightarrow> (error + unit) \<times> 'c atom \<times> world" where
  "set_bind_icons C a status w =
     (let a = a\<lparr>bind_icons := status\<rparr>;
          (r, w) = save C a w
      in (r, a, w))"

definition set_bind_fonts ::
  "'c collaborators \<Rightarrow> 'c atom \<Rightarrow> pyval \<Rightarrow> world \<Rightarrow> (error + unit) \<times> 'c atom \<times> world" where
  "set_bind_fonts C a status w =
     (let a = a\<lparr>bind_fonts := status\<rparr>;
          (r, w) = save C a w
      in (r, a, w))"

section \<open>Values a manifest reproduces\<close>

text \<open>
  A value survives \<^verbatim>\<open>orjson.loads(orjson.dumps(v))\<close> unchanged when it holds no tuple
  (an array is read back as a list) and is built from values that do.
\<close>

primrec json_stable :: "pyval \<Rightarrow> bool" where
  "json_stable PNone = True"
| "json_stable (PBool b) = True"
| "json_stable (PInt i) = True"
| "json_stable (PStr s) = True"
| "json_stable (PList xs) = list_all json_stable xs"
| "json_stable (PTuple xs) = False"
| "json_stable (PDict kvs) =
     (distinct (map fst kvs) \<and> list_all (pred_prod (\<lambda>k. True) json_stable) kvs)"

section \<open>An example installation\<close>

text \<open>
  A world with an empty file system in which every path can be written, a path resolver
  that joins the configured directory and the relative path, and wrappers that prefix the
  command; the entities are a chroot as \<^verbatim>\<open>Atom.new\<close> constructs it, the same after
  \<^verbatim>\<open>rename(" x ")\<close>, a container as \<^verbatim>\<open>load_from_container\<close> constructs it, and the
  system shell.
\<close>

definition demo_world :: world where
  "demo_world =
     \<lparr> files = Map.empty,
       writable = (\<lambda>p. True),
       environ = [''SHELL'' \<mapsto> ''/bin/bash''],
       now_isoformat = ''2022-08-02T09:30:00.000001'',
       tmp_names = (\<lambda>n. ''/tmp/tmp'' @ replicate n (CHR ''x'')),
       tmp_count = 0 \<rparr>"

definition demo_collaborators :: "string collaborators" where
  "demo_collaborators =
     \<lparr> get_atom_path =
         (\<lambda>c r. case r of PStr s \<Rightarrow> Inr (os_path_join c s)
                 | _ \<Rightarrow> Inl (TypeError ''expected str'')),
       get_proot_command_for_chroot =
         (\<lambda>fp command ms. raising (py_iter command) (\<lambda>xs. Inr (PList ([PStr ''proot'', PStr fp] @ xs)))),
       get_distrobox_command_for_container =
         (\<lambda>cid command. raising (py_iter command) (\<lambda>xs. Inr (PList ([PStr ''distrobox'', cid] @ xs)))),
       orjson_encodable = (\<lambda>v. True) \<rparr>"

definition demo_instance :: "string atoms_instance" where
  "demo_instance = \<lparr> config = ''/atoms'' \<rparr>"

definition demo_chroot :: "string atom" where
  "demo_chroot =
     \<lparr> the_instance = demo_instance,
       name = PStr ''test'',
       distribution_id = PStr ''ubuntu'',
       relative_path = PStr ''0a1b.atom'',
       creation_date = PStr ''2022-08-01T10:00:00.000001'',
       update_date = PStr ''2022-08-01T10:00:00.000001'',
       container_id = PNone,
       container_image = PNone,
       system_shell = PBool False,
       bind_themes = PBool False,
       bind_icons = PBool False,
       bind_fonts = PBool False,
       bind_extra_mounts = PList [],
       distrobox_wrapper = False \<rparr>"

definition demo_renamed :: "string atom" where
  "demo_renamed = demo_chroot\<lparr>name := PStr '' x ''\<rparr>"

definition demo_container :: "string atom" where
  "demo_container =
     \<lparr> the_instance = demo_instance,
       name = PStr ''box'',
       distribution_id = PNone,
       relative_path = PNone,
       creation_date = PStr ''2022-08-01T10:00:00.000001'',
       update_date = PStr ''2022-08-02T09:30:00.000001'',
       container_id = PStr ''4f2c'',
       container_image = PStr ''fedora:36'',
       system_shell = PBool False,
       bind_themes = PBool False,
       bind_icons = PBool False,
       bind_fonts = PBool False,
       bind_extra_mounts = PList [],
       distrobox_wrapper = True \<rparr>"

definition demo_shell :: "string atom" where
  "demo_shell =
     \<lparr> the_instance = demo_instance,
       name = PStr ''system-shell'',
       distribution_id = PNone,
       relative_path = PNone,
       creation_date = PNone,
       update_date = PStr ''2022-08-02T09:30:00.000001'',
       container_id = PNone,
       container_image = PNone,
       system_shell = PBool True,
       bind_themes = PBool False,
       bind_icons = PBool False,
       bind_fonts = PBool False,
       bind_extra_mounts = PList [],
       distrobox_wrapper = False \<rparr>"

text \<open>
  A chroot with themes, fonts and one extra mount bound; a chroot with no flag set whose
  extra mounts hold the themes pair; a manifest written before the bind-mount fields
  existed; and a manifest that lacks its creation date.
\<close>

definition demo_mounted :: "string atom" where
  "demo_mounted =
     demo_chroot\<lparr>bind_themes := PBool True, bind_fonts := PBool True,
       bind_extra_mounts := PList [PList [PStr ''/srv/data'', PStr ''/data'']]\<rparr>"

definition demo_themes_in_extras :: "string atom" where
  "demo_themes_in_extras =
     demo_chroot\<lparr>bind_extra_mounts :=
       PList [PTuple [PStr ''/usr/share/themes'', PStr ''/usr/share/themes'']]\<rparr>"

definition demo_legacy_data :: pydict where
  "demo_legacy_data =
     [(''name'', PStr ''test''),
      (''distributionId'', PStr ''ubuntu''),
      (''relativePath'', PStr ''0a1b.atom''),
      (''creationDate'', PStr ''2022-08-01T10:00:00.000001''),
      (''updateDate'', PStr ''2022-08-01T10:00:00.000001'')]"

definition demo_incomplete_data :: pydict where
  "demo_incomplete_data =
     [(''name'', PStr ''test''),
      (''distributionId'', PStr ''ubuntu''),
      (''relativePath'', PStr ''0a1b.atom''),
      (''updateDate'', PStr ''2022-08-01T10:00:00.000001'')]"

section \<open>Basic facts\<close>

lemmas demo_defs = demo_world_def demo_collaborators_def demo_instance_def demo_chroot_def
  demo_renamed_def demo_container_def demo_shell_def

subsection \<open>Stripping\<close>

lemma dropWhile_rev_dropWhile:
  assumes "xs = [] \<or> \<not> P (hd xs)"
  shows "dropWhile P (rev (dropWhile P (rev xs))) = rev (dropWhile P (rev xs))"
proof (cases "dropWhile P (rev xs) = []")
  case True
  show ?thesis unfolding True by simp
next
  case False
  define ys where "ys = rev (dropWhile P (rev xs))"
  have "ys @ rev (takeWhile P (rev xs)) = rev (takeWhile P (rev xs) @ dropWhile P (rev xs))"
    by (simp only: rev_append ys_def)
  also have "\<dots> = rev (rev xs)" by (simp only: takeWhile_dropWhile_id)
  finally have xs: "xs = ys @ rev (takeWhile P (rev xs))" by simp
  from False have ne: "ys \<noteq> []" by (simp add: ys_def)
  with xs have "hd xs = hd ys" by (metis hd_append2)
  moreover from xs ne have "xs \<noteq> []" by auto
  ultimately have "\<not> P (hd ys)" using assms by simp
  then have "dropWhile P ys = ys" by (simp add: dropWhile_eq_self_iff)
  then show ?thesis by (simp add: ys_def)
qed

lemma hd_dropWhile_not: "dropWhile P s = [] \<or> \<not> P (hd (dropWhile P s))"
  by (metis hd_dropWhile)

lemma strip_idem: "strip (strip s) = strip s"
proof -
  let ?t = "dropWhile is_space s"
  have "dropWhile is_space (rev (dropWhile is_space (rev ?t))) = rev (dropWhile is_space (rev ?t))"
    by (rule dropWhile_rev_dropWhile) (rule hd_dropWhile_not)
  then show ?thesis by (simp add: strip_def)
qed

lemma strip_test: "strip '' test '' = ''test''"
  by (simp add: strip_def is_space_def)

subsection \<open>The constructor\<close>

lemma init_str:
  "init w inst (PStr n) d r cd ud cid img sh bt bi bf bem =
     Inr \<lparr> the_instance = inst, name = PStr (strip n), distribution_id = d, relative_path = r,
           creation_date = cd,
           update_date = (if ud = PNone \<and> truthy (py_or cid sh) then PStr (now_isoformat w)
                          else if ud = PNone then cd else ud),
           container_id = cid, container_image = img, system_shell = sh,
           bind_themes = bt, bind_icons = bi, bind_fonts = bf,
           bind_extra_mounts = py_or bem (PList []),
           distrobox_wrapper = truthy cid \<rparr>"
  by (simp add: init_def Let_def)

lemma init_keeps:
  assumes "init w inst nm d r cd ud cid img sh bt bi bf bem = Inr a"
  shows "container_id a = cid" and "system_shell a = sh" and "distrobox_wrapper a = truthy cid"
    and "\<exists>n. nm = PStr n \<and> name a = PStr (strip n)"
  using assms by (auto simp: init_def Let_def split: pyval.splits)

lemma demo_chroot_constructed:
  "init demo_world demo_instance (PStr '' test '') (PStr ''ubuntu'') (PStr ''0a1b.atom'')
     (PStr ''2022-08-01T10:00:00.000001'') PNone PNone PNone (PBool False)
     (PBool False) (PBool False) (PBool False) (PList []) = Inr demo_chroot"
  by (simp add: init_def py_or_def demo_chroot_def demo_instance_def strip_def is_space_def)

lemma demo_container_constructed:
  "load_from_container demo_world demo_instance (PStr ''2022-08-01T10:00:00.000001'')
     (PStr ''box'') (PStr ''fedora:36'') (PStr ''4f2c'') = Inr demo_container"
  by (simp add: load_from_container_def init_def py_or_def demo_container_def demo_world_def
      strip_def is_space_def)

lemma demo_shell_constructed:
  "new_system_shell demo_world demo_instance = Inr demo_shell"
  by (simp add: new_system_shell_def init_def py_or_def demo_shell_def demo_world_def
      strip_def is_space_def)

subsection \<open>Raising\<close>

lemma raising_Inr: "raising m f = Inr y \<Longrightarrow> \<exists>x. m = Inr x \<and> f x = Inr y"
  by (cases m) (simp_all add: raising_def)

subsection \<open>The codec\<close>

lemma dict_set_fresh: "k \<notin> fst ` set d \<Longrightarrow> dict_set d k v = d @ [(k, v)]"
  by (induction d) auto

lemma fold_dict_set_distinct:
  "distinct (map fst (acc @ kvs)) \<Longrightarrow> fold (\<lambda>(k, v) d. dict_set d k v) kvs acc = acc @ kvs"
proof (induction kvs arbitrary: acc)
  case Nil
  then show ?case by simp
next
  case (Cons kv kvs)
  obtain k v where kv: "kv = (k, v)" by (cases kv)
  from Cons.prems kv have fresh: "k \<notin> fst ` set acc" by auto
  from Cons.prems kv have "distinct (map fst ((acc @ [(k, v)]) @ kvs))" by auto
  from Cons.IH [OF this] fresh kv show ?case by (simp add: dict_set_fresh)
qed

lemma dict_of_pairs_distinct: "distinct (map fst kvs) \<Longrightarrow> dict_of_pairs kvs = kvs"
  using fold_dict_set_distinct [of "[]" kvs] by (simp add: dict_of_pairs_def)

lemma orjson_loads_to_json: "json_stable v \<Longrightarrow> orjson_loads (to_json v) = v"
proof (induction v)
  case (PList xs)
  then show ?case by (simp add: list_all_iff map_idI)
next
  case (PDict kvs)
  have "map (map_prod id orjson_loads \<circ> map_prod id to_json) kvs = kvs"
  proof (rule map_idI)
    fix kv assume mem: "kv \<in> set kvs"
    obtain k v where kv: "kv = (k, v)" by (cases kv)
    from PDict.prems mem kv have "json_stable v"
      by (auto simp: list_all_iff)
    with PDict.IH [of kv v] mem kv have "orjson_loads (to_json v) = v" by simp
    with kv show "(map_prod id orjson_loads \<circ> map_prod id to_json) kv = kv" by simp
  qed
  with PDict.prems show ?case by (simp add: dict_of_pairs_distinct)
qed simp_all

subsection \<open>Saving and loading\<close>

lemma save_not_chroot:
  "not_chroot a \<Longrightarrow> save C a w = (Inl (NameError ''AtomsCannotSavePodmanContainers''), w)"
  by (simp add: save_def)

lemma save_chroot_written:
  assumes "\<not> not_chroot a"
    and "get_atom_path C (config (the_instance a)) (relative_path a) = Inr p"
    and "writable w (os_path_join p ''atom.json'')"
    and "orjson_encodable C (PDict (to_dict a))"
  shows "save C a w =
           (Inr (), w\<lparr>files := (files w)(os_path_join p ''atom.json'' \<mapsto>
                                      Json_doc (to_json (PDict (to_dict a))))\<rparr>)"
  using assms by (simp add: save_def path_def orjson_dumps_def Let_def)

lemma fill_defaults_to_dict: "fill_defaults (to_dict a) = to_dict a"
  by (simp add: fill_defaults_def get_extra_default_options_def to_dict_def dict_contains_def)

lemma from_dict_to_dict:
  assumes "name a = PStr n"
    and "distribution_id a \<noteq> PNone" and "relative_path a \<noteq> PNone"
    and "creation_date a \<noteq> PNone" and "update_date a \<noteq> PNone"
  shows "from_dict w inst (to_dict a) =
           Inr \<lparr> the_instance = inst,
                 name = PStr (strip n),
                 distribution_id = distribution_id a,
                 relative_path = relative_path a,
                 creation_date = creation_date a,
                 update_date = update_date a,
                 container_id = PNone,
                 container_image = PNone,
                 system_shell = PBool False,
                 bind_themes = bind_themes a,
                 bind_icons = bind_icons a,
                 bind_fonts = bind_fonts a,
                 bind_extra_mounts = py_or (bind_extra_mounts a) (PList []),
                 distrobox_wrapper = False \<rparr>"
proof -
  have nonone: "PNone \<notin> set [dict_get (to_dict a) ''name'',
                      dict_get (to_dict a) ''distributionId'',
                      dict_get (to_dict a) ''creationDate'',
                      dict_get (to_dict a) ''updateDate'',
                      dict_get (to_dict a) ''relativePath'']"
    using assms by (simp add: dict_get_def to_dict_def)
  have sub: "subscript (to_dict a) ''name'' = Inr (name a)"
    "subscript (to_dict a) ''distributionId'' = Inr (distribution_id a)"
    "subscript (to_dict a) ''relativePath'' = Inr (relative_path a)"
    "subscript (to_dict a) ''creationDate'' = Inr (creation_date a)"
    "subscript (to_dict a) ''updateDate'' = Inr (update_date a)"
    "subscript (to_dict a) ''bindThemes'' = Inr (bind_themes a)"
    "subscript (to_dict a) ''bindIcons'' = Inr (bind_icons a)"
    "subscript (to_dict a) ''bindFonts'' = Inr (bind_fonts a)"
    "subscript (to_dict a) ''bindExtraMounts'' = Inr (bind_extra_mounts a)"
    by (simp_all add: subscript_def to_dict_def)
  have "from_dict w inst (to_dict a) =
          init w inst (name a) (distribution_id a) (relative_path a) (creation_date a)
            (update_date a) PNone PNone (PBool False) (bind_themes a) (bind_icons a)
            (bind_fonts a) (bind_extra_mounts a)"
    unfolding from_dict_def using nonone
    by (simp only: if_False Let_def fill_defaults_to_dict sub raising_def sum.case)
  then show ?thesis using assms by (simp add: init_def py_or_def)
qed

lemma load_reads_dict:
  assumes "get_atom_path C (config inst) rel = Inr p"
    and "files w (os_path_join p ''atom.json'') = Some (Json_doc j)"
    and "orjson_loads j = PDict data"
  shows "load C w inst rel = from_dict w inst data"
  using assms by (simp add: load_def raising_def Let_def)

lemma demo_path: "get_atom_path demo_collaborators (config demo_instance) (PStr ''0a1b.atom'') = Inr ''/atoms/0a1b.atom''"
  by (simp add: demo_defs os_path_join_def)

lemma demo_save_renamed:
  "save demo_collaborators demo_renamed demo_world =
     (Inr (), demo_world\<lparr>files := [''/atoms/0a1b.atom/atom.json'' \<mapsto>
        Json_doc (to_json (PDict (to_dict demo_renamed)))]\<rparr>)"
proof -
  have 1: "\<not> not_chroot demo_renamed"
    by (simp add: not_chroot_def is_distrobox_container_def demo_defs)
  have 2: "get_atom_path demo_collaborators (config (the_instance demo_renamed)) (relative_path demo_renamed) = Inr ''/atoms/0a1b.atom''"
    by (simp add: demo_defs os_path_join_def)
  have 3: "writable demo_world (os_path_join ''/atoms/0a1b.atom'' ''atom.json'')"
    by (simp add: demo_defs)
  have 4: "orjson_encodable demo_collaborators (PDict (to_dict demo_renamed))"
    by (simp add: demo_defs)
  from save_chroot_written [OF 1 2 3 4] show ?thesis
    by (simp add: os_path_join_def demo_world_def)
qed

lemma demo_renamed_arises:
  "\<exists>w. rename demo_collaborators demo_chroot (PStr '' x '') demo_world = (Inr (), demo_renamed, w)"
proof -
  have "\<not> not_chroot demo_chroot"
    by (simp add: not_chroot_def is_distrobox_container_def demo_defs)
  then show ?thesis
    by (simp add: rename_def Let_def demo_save_renamed [unfolded demo_renamed_def] demo_renamed_def)
qed

subsection \<open>Dispatch on the backend\<close>

lemma generate_command_untracked:
  "fst (generate_command C a command environment (PBool False) w) =
     (if container_id a \<noteq> PNone then generate_distrobox_command C a command environment
      else if truthy (system_shell a) then generate_system_shell_command w
      else generate_proot_command C a command environment)"
  by (auto simp: generate_command_def is_distrobox_container_def split: sum.splits prod.splits)

lemma generate_command_tracked:
  assumes "fst (generate_command C a command environment track w) = Inr (c', e, wd)"
  shows "\<exists>c. (if container_id a \<noteq> PNone then generate_distrobox_command C a command environment
      else if truthy (system_shell a) then generate_system_shell_command w
      else generate_proot_command C a command environment) = Inr (c, e, wd)"
  using assms
  by (auto simp: generate_command_def is_distrobox_container_def raising_def
      split: sum.splits prod.splits if_splits)

lemma empty_container_id_has_no_wrapper:
  assumes "init w inst (PStr n) d r cd ud (PStr []) img sh bt bi bf bem = Inr a"
  shows "is_distrobox_container a"
    and "fst (generate_command C a command environment track_exit w') =
           Inl (AttributeError ''_Atom__distrobox_wrapper'')"
  using assms
  by (auto simp: init_str is_distrobox_container_def generate_command_def
      generate_distrobox_command_def)

subsection \<open>Reading a manifest\<close>

lemma from_dict_missing:
  assumes "k \<in> {''name'', ''distributionId'', ''creationDate'', ''updateDate'', ''relativePath''}"
    and "\<not> dict_contains data k"
  shows "from_dict w inst data = Inl (AtomsWrongAtomData data)"
proof -
  from assms(2) have "dict_get data k = PNone"
    by (simp add: dict_get_def dict_contains_def)
  with assms(1) have "PNone \<in> set [dict_get data ''name'', dict_get data ''distributionId'',
      dict_get data ''creationDate'', dict_get data ''updateDate'', dict_get data ''relativePath'']"
    by auto
  then show ?thesis unfolding from_dict_def by (simp only: if_True)
qed

lemma load_absent:
  assumes "get_atom_path C (config inst) rel = Inr p"
    and "files w (os_path_join p ''atom.json'') = None"
  shows "load C w inst rel = Inl (AtomsConfigFileNotFound (os_path_join p ''atom.json''))"
  using assms by (simp add: load_def raising_def Let_def)

lemma map_of_dict_set: "map_of (dict_set d k v) = (map_of d)(k \<mapsto> v)"
  by (induction d) (auto simp: fun_eq_iff)

lemma map_of_fill_defaults:
  "map_of (fill_defaults data) k =
     (case map_of data k of Some v \<Rightarrow> Some v | None \<Rightarrow> map_of get_extra_default_options k)"
  by (simp add: fill_defaults_def get_extra_default_options_def dict_contains_def map_of_dict_set
      split: option.splits)

lemma from_dict_fills_defaults:
  assumes "map_of data ''name'' = Some (PStr n)"
    and "map_of data ''distributionId'' = Some d" "d \<noteq> PNone"
    and "map_of data ''relativePath'' = Some r" "r \<noteq> PNone"
    and "map_of data ''creationDate'' = Some cd" "cd \<noteq> PNone"
    and "map_of data ''updateDate'' = Some ud" "ud \<noteq> PNone"
  shows "from_dict w inst data =
           Inr \<lparr> the_instance = inst,
                 name = PStr (strip n),
                 distribution_id = d,
                 relative_path = r,
                 creation_date = cd,
                 update_date = ud,
                 container_id = PNone,
                 container_image = PNone,
                 system_shell = PBool False,
                 bind_themes = (case map_of data ''bindThemes'' of None \<Rightarrow> PBool False | Some v \<Rightarrow> v),
                 bind_icons = (case map_of data ''bindIcons'' of None \<Rightarrow> PBool False | Some v \<Rightarrow> v),
                 bind_fonts = (case map_of data ''bindFonts'' of None \<Rightarrow> PBool False | Some v \<Rightarrow> v),
                 bind_extra_mounts =
                   py_or (case map_of data ''bindExtraMounts'' of None \<Rightarrow> PList [] | Some v \<Rightarrow> v)
                     (PList []),
                 distrobox_wrapper = False \<rparr>"
proof -
  have nonone: "PNone \<notin> set [dict_get data ''name'', dict_get data ''distributionId'',
      dict_get data ''creationDate'', dict_get data ''updateDate'', dict_get data ''relativePath'']"
    using assms by (simp add: dict_get_def)
  have sub: "subscript (fill_defaults data) ''name'' = Inr (PStr n)"
    "subscript (fill_defaults data) ''distributionId'' = Inr d"
    "subscript (fill_defaults data) ''relativePath'' = Inr r"
    "subscript (fill_defaults data) ''creationDate'' = Inr cd"
    "subscript (fill_defaults data) ''updateDate'' = Inr ud"
    "subscript (fill_defaults data) ''bindThemes'' =
       Inr (case map_of data ''bindThemes'' of None \<Rightarrow> PBool False | Some v \<Rightarrow> v)"
    "subscript (fill_defaults data) ''bindIcons'' =
       Inr (case map_of data ''bindIcons'' of None \<Rightarrow> PBool False | Some v \<Rightarrow> v)"
    "subscript (fill_defaults data) ''bindFonts'' =
       Inr (case map_of data ''bindFonts'' of None \<Rightarrow> PBool False | Some v \<Rightarrow> v)"
    "subscript (fill_defaults data) ''bindExtraMounts'' =
       Inr (case map_of data ''bindExtraMounts'' of None \<Rightarrow> PList [] | Some v \<Rightarrow> v)"
    using assms
    by (simp_all add: subscript_def map_of_fill_defaults get_extra_default_options_def
        split: option.splits)
  have "from_dict w inst data =
          init w inst (PStr n) d r cd ud PNone PNone (PBool False)
            (case map_of data ''bindThemes'' of None \<Rightarrow> PBool False | Some v \<Rightarrow> v)
            (case map_of data ''bindIcons'' of None \<Rightarrow> PBool False | Some v \<Rightarrow> v)
            (case map_of data ''bindFonts'' of None \<Rightarrow> PBool False | Some v \<Rightarrow> v)
            (case map_of data ''bindExtraMounts'' of None \<Rightarrow> PList [] | Some v \<Rightarrow> v)"
    unfolding from_dict_def using nonone
    by (simp only: if_False Let_def sub raising_def sum.case)
  then show ?thesis using assms by (simp add: init_str py_or_def)
qed

lemma demo_legacy_loaded:
  "from_dict demo_world demo_instance demo_legacy_data = Inr demo_chroot"
  by (subst from_dict_fills_defaults [of _ "''test''"])
    (simp_all add: demo_legacy_data_def demo_chroot_def py_or_def strip_def is_space_def)

lemma from_dict_name_trimmed:
  assumes "from_dict w inst data = Inr a"
  shows "\<exists>n. name a = PStr n \<and> strip n = n"
proof -
  from assms obtain v1 v2 v3 v4 v5 v6 v7 v8 v9 where
    "init w inst v1 v2 v3 v4 v5 PNone PNone (PBool False) v6 v7 v8 v9 = Inr a"
    unfolding from_dict_def Let_def
    by (auto split: if_splits dest!: raising_Inr)
  then obtain n where "name a = PStr (strip n)" by (auto dest: init_keeps)
  then show ?thesis by (auto simp: strip_idem)
qed

lemma from_dict_Inr:
  assumes "from_dict w inst data = Inr a"
  shows "container_id a = PNone" and "system_shell a = PBool False"
proof -
  from assms obtain v1 v2 v3 v4 v5 v6 v7 v8 v9 where
    "init w inst v1 v2 v3 v4 v5 PNone PNone (PBool False) v6 v7 v8 v9 = Inr a"
    unfolding from_dict_def Let_def
    by (auto split: if_splits dest!: raising_Inr)
  then show "container_id a = PNone" and "system_shell a = PBool False"
    by (auto dest: init_keeps)
qed

lemma load_Inr:
  assumes "load C w inst rel = Inr a"
  shows "\<exists>data. from_dict w inst data = Inr a"
  using assms unfolding load_def Let_def
  by (auto dest!: raising_Inr split: option.splits filedata.splits pyval.splits)

subsection \<open>Operations on an entity that is no chroot\<close>

lemma rename_not_chroot:
  "not_chroot a \<Longrightarrow>
     rename C a new_name w = (Inl (NameError ''AtomsCannotRenamePodmanContainers''), a, w)"
  by (simp add: rename_def)

lemma not_chroot_name_update [simp]: "not_chroot (a\<lparr>name := v\<rparr>) = not_chroot a"
  by (simp add: not_chroot_def is_distrobox_container_def)

lemma rename_chroot:
  assumes "\<not> not_chroot a"
    and "get_atom_path C (config (the_instance a)) (relative_path a) = Inr p"
    and "writable w (os_path_join p ''atom.json'')"
    and "orjson_encodable C (PDict (to_dict (a\<lparr>name := new_name\<rparr>)))"
  shows "rename C a new_name w =
           (Inr (), a\<lparr>name := new_name\<rparr>,
            w\<lparr>files := (files w)(os_path_join p ''atom.json'' \<mapsto>
                   Json_doc (to_json (PDict (to_dict (a\<lparr>name := new_name\<rparr>)))))\<rparr>)"
proof -
  have "save C (a\<lparr>name := new_name\<rparr>) w =
      (Inr (), w\<lparr>files := (files w)(os_path_join p ''atom.json'' \<mapsto>
                   Json_doc (to_json (PDict (to_dict (a\<lparr>name := new_name\<rparr>)))))\<rparr>)"
    using assms by (intro save_chroot_written) simp_all
  with assms(1) show ?thesis by (simp add: rename_def Let_def)
qed

lemma not_chroot_bind_update [simp]:
  "not_chroot (a\<lparr>bind_themes := v\<rparr>) = not_chroot a"
  "not_chroot (a\<lparr>bind_icons := v\<rparr>) = not_chroot a"
  "not_chroot (a\<lparr>bind_fonts := v\<rparr>) = not_chroot a"
  by (simp_all add: not_chroot_def is_distrobox_container_def)

subsection \<open>The bind mounts\<close>

lemma mounts_distinct:
  "themes_mount \<noteq> icons_mount" "themes_mount \<noteq> fonts_mount" "icons_mount \<noteq> fonts_mount"
  by (simp_all add: themes_mount_def icons_mount_def fonts_mount_def)

lemma demo_themes_in_extras_constructed:
  "init demo_world demo_instance (PStr ''test'') (PStr ''ubuntu'') (PStr ''0a1b.atom'')
     (PStr ''2022-08-01T10:00:00.000001'') PNone PNone PNone (PBool False)
     (PBool False) (PBool False) (PBool False)
     (PList [PTuple [PStr ''/usr/share/themes'', PStr ''/usr/share/themes'']])
   = Inr demo_themes_in_extras"
  by (simp add: init_def py_or_def demo_themes_in_extras_def demo_chroot_def demo_instance_def
      strip_def is_space_def)

section \<open>Backend discrimination\<close>

text \<open>
  \<^bold>\<open>C1\<close>. Backend discrimination follows a fixed priority order. An entity constructed
  with a non-empty container id reports \<open>is_distrobox_container\<close>, whatever the other
  fields are, and its commands are generated by the container branch even when the
  pass-through flag is set as well. An entity constructed with the pass-through flag
  reports \<open>is_system_shell\<close> to be \<^verbatim>\<open>True\<close>, whatever \<open>container_id\<close> is. For every
  entity \<open>generate_command\<close> tests the container id first, then the pass-through flag,
  and falls back to the chroot branch: without the launcher its result is that of the
  selected branch, and with it the environment and the working directory are.
\<close>

theorem backend_priority:
  assumes "cid \<noteq> []"
  shows "(\<exists>a. init w inst (PStr n) d r cd ud (PStr cid) img sh bt bi bf bem = Inr a
            \<and> is_distrobox_container a
            \<and> fst (generate_command C a command environment (PBool False) w') =
                generate_distrobox_command C a command environment)
       \<and> (\<exists>a. init w inst (PStr n) d r cd ud cid' img (PBool True) bt bi bf bem = Inr a
            \<and> is_system_shell a = PBool True)
       \<and> fst (generate_command C b command environment (PBool False) w') =
           (if container_id b \<noteq> PNone then generate_distrobox_command C b command environment
            else if truthy (system_shell b) then generate_system_shell_command w'
            else generate_proot_command C b command environment)
       \<and> (fst (generate_command C b command environment track w') = Inr (c', e, wd) \<longrightarrow>
           (\<exists>c. (if container_id b \<noteq> PNone then generate_distrobox_command C b command environment
                 else if truthy (system_shell b) then generate_system_shell_command w'
                 else generate_proot_command C b command environment) = Inr (c, e, wd)))"
proof (intro conjI impI)
  show "\<exists>a. init w inst (PStr n) d r cd ud (PStr cid) img sh bt bi bf bem = Inr a
            \<and> is_distrobox_container a
            \<and> fst (generate_command C a command environment (PBool False) w') =
                generate_distrobox_command C a command environment"
    by (simp add: init_str is_distrobox_container_def generate_command_untracked)
  show "\<exists>a. init w inst (PStr n) d r cd ud cid' img (PBool True) bt bi bf bem = Inr a
            \<and> is_system_shell a = PBool True"
    by (simp add: init_str is_system_shell_def)
  show "fst (generate_command C b command environment (PBool False) w') =
           (if container_id b \<noteq> PNone then generate_distrobox_command C b command environment
            else if truthy (system_shell b) then generate_system_shell_command w'
            else generate_proot_command C b command environment)"
    by (rule generate_command_untracked)
next
  assume "fst (generate_command C b command environment track w') = Inr (c', e, wd)"
  then show "\<exists>c. (if container_id b \<noteq> PNone then generate_distrobox_command C b command environment
                 else if truthy (system_shell b) then generate_system_shell_command w'
                 else generate_proot_command C b command environment) = Inr (c, e, wd)"
    by (rule generate_command_tracked)
qed

theorem backend_priority_witness:
  "''4f2c'' \<noteq> []
   \<and> is_distrobox_container demo_container
   \<and> fst (generate_command demo_collaborators demo_container (PList []) PNone (PBool False) demo_world)
       = generate_distrobox_command demo_collaborators demo_container (PList []) PNone
   \<and> (\<exists>a. init demo_world demo_instance (PStr ''both'') PNone PNone PNone PNone (PStr ''4f2c'') PNone
             (PBool True) (PBool False) (PBool False) (PBool False) PNone = Inr a
          \<and> is_system_shell a = PBool True)
   \<and> fst (generate_command demo_collaborators demo_shell (PList []) PNone (PBool False) demo_world)
       = Inr (PList [PStr ''/bin/bash''], PList [], PStr ''/'')"
proof -
  have h: "''4f2c'' \<noteq> []" by simp
  have c: "init demo_world demo_instance (PStr ''box'') PNone PNone
             (PStr ''2022-08-01T10:00:00.000001'') PNone (PStr ''4f2c'') (PStr ''fedora:36'')
             (PBool False) (PBool False) (PBool False) (PBool False) PNone = Inr demo_container"
    by (simp add: init_def py_or_def demo_container_def demo_world_def strip_def is_space_def)
  note t = backend_priority [OF h, where w = demo_world and inst = demo_instance
      and C = demo_collaborators and command = "PList []" and environment = PNone
      and w' = demo_world and bt = "PBool False" and bi = "PBool False" and bf = "PBool False"
      and bem = PNone and ud = PNone and b = demo_shell and cid' = "PStr ''4f2c''"]
  from t [where n = "''box''" and d = PNone and r = PNone
      and cd = "PStr ''2022-08-01T10:00:00.000001''" and img = "PStr ''fedora:36''"
      and sh = "PBool False"] c
  have 1: "is_distrobox_container demo_container
     \<and> fst (generate_command demo_collaborators demo_container (PList []) PNone (PBool False) demo_world)
       = generate_distrobox_command demo_collaborators demo_container (PList []) PNone"
    by simp
  from t [where n = "''both''" and d = PNone and r = PNone and cd = PNone and img = PNone]
  have 2: "\<exists>a. init demo_world demo_instance (PStr ''both'') PNone PNone PNone PNone (PStr ''4f2c'') PNone
             (PBool True) (PBool False) (PBool False) (PBool False) PNone = Inr a
          \<and> is_system_shell a = PBool True"
    by blast
  from t have "fst (generate_command demo_collaborators demo_shell (PList []) PNone (PBool False) demo_world)
       = (if container_id demo_shell \<noteq> PNone
          then generate_distrobox_command demo_collaborators demo_shell (PList []) PNone
          else if truthy (system_shell demo_shell) then generate_system_shell_command demo_world
          else generate_proot_command demo_collaborators demo_shell (PList []) PNone)"
    by blast
  then have 3: "fst (generate_command demo_collaborators demo_shell (PList []) PNone (PBool False) demo_world)
       = Inr (PList [PStr ''/bin/bash''], PList [], PStr ''/'')"
    by (simp add: demo_shell_def generate_system_shell_command_def demo_world_def)
  from h 1 2 3 show ?thesis by blast
qed

section \<open>Persistence round trip\<close>

text \<open>
  \<^bold>\<open>C2\<close>, as the code has it. Take a chroot entity (no container id, pass-through flag
  false) whose name is a string that is already trimmed, whose distribution id, relative
  path, creation date and update date are set, whose extra mounts are as the constructor
  leaves them (a true value or the empty list) and whose persisted values are JSON values.
  When its manifest can be written, \<open>save\<close> succeeds and writes all nine fields, and
  \<open>load\<close> from its manifest directory returns an entity with the same name,
  distribution id, relative path, creation date, update date, bind flags and extra mounts.
\<close>

theorem save_load_roundtrip:
  assumes chroot: "container_id a = PNone" "\<not> truthy (system_shell a)"
    and trimmed: "name a = PStr n" "strip n = n"
    and required: "distribution_id a \<noteq> PNone" "relative_path a \<noteq> PNone"
      "creation_date a \<noteq> PNone" "update_date a \<noteq> PNone"
    and mounts: "truthy (bind_extra_mounts a) \<or> bind_extra_mounts a = PList []"
    and stable: "json_stable (PDict (to_dict a))"
    and resolved: "get_atom_path C (config (the_instance a)) (relative_path a) = Inr p"
    and can_write: "writable w (os_path_join p ''atom.json'')"
    and encodable: "orjson_encodable C (PDict (to_dict a))"
  shows "\<exists>w' b. save C a w = (Inr (), w')
           \<and> files w' (os_path_join p ''atom.json'') = Some (Json_doc (to_json (PDict (to_dict a))))
           \<and> load C w' (the_instance a) (relative_path a) = Inr b
           \<and> name b = name a
           \<and> distribution_id b = distribution_id a
           \<and> relative_path b = relative_path a
           \<and> creation_date b = creation_date a
           \<and> update_date b = update_date a
           \<and> bind_themes b = bind_themes a
           \<and> bind_icons b = bind_icons a
           \<and> bind_fonts b = bind_fonts a
           \<and> bind_extra_mounts b = bind_extra_mounts a
           \<and> to_dict b = to_dict a"
proof -
  let ?f = "os_path_join p ''atom.json''"
  let ?w = "w\<lparr>files := (files w)(?f \<mapsto> Json_doc (to_json (PDict (to_dict a))))\<rparr>"
  let ?b = "\<lparr> the_instance = the_instance a,
                 name = PStr (strip n),
                 distribution_id = distribution_id a,
                 relative_path = relative_path a,
                 creation_date = creation_date a,
                 update_date = update_date a,
                 container_id = PNone,
                 container_image = PNone,
                 system_shell = PBool False,
                 bind_themes = bind_themes a,
                 bind_icons = bind_icons a,
                 bind_fonts = bind_fonts a,
                 bind_extra_mounts = py_or (bind_extra_mounts a) (PList []),
                 distrobox_wrapper = False \<rparr>"
  from chroot have "\<not> not_chroot a"
    by (simp add: not_chroot_def is_distrobox_container_def)
  from save_chroot_written [OF this resolved can_write encodable]
  have saved: "save C a w = (Inr (), ?w)" .
  have written: "files ?w ?f = Some (Json_doc (to_json (PDict (to_dict a))))" by simp
  from stable have decoded: "orjson_loads (to_json (PDict (to_dict a))) = PDict (to_dict a)"
    by (rule orjson_loads_to_json)
  have "load C ?w (the_instance a) (relative_path a)
      = from_dict ?w (the_instance a) (to_dict a)"
    using resolved written decoded by (rule load_reads_dict)
  also have "\<dots> = Inr ?b"
    using trimmed(1) required by (rule from_dict_to_dict)
  finally have loaded: "load C ?w (the_instance a) (relative_path a) = Inr ?b" .
  from mounts have em: "py_or (bind_extra_mounts a) (PList []) = bind_extra_mounts a"
    by (auto simp: py_or_def)
  from trimmed em have same: "name ?b = name a" "bind_extra_mounts ?b = bind_extra_mounts a"
    by simp_all
  then have "to_dict ?b = to_dict a" by (simp add: to_dict_def)
  with saved written loaded same show ?thesis
    by (intro exI [of _ ?w] exI [of _ ?b]) simp
qed

theorem save_load_roundtrip_witness:
  "from_dict demo_world demo_instance demo_legacy_data = Inr demo_chroot
   \<and> container_id demo_chroot = PNone
   \<and> \<not> truthy (system_shell demo_chroot)
   \<and> name demo_chroot = PStr ''test''
   \<and> strip ''test'' = ''test''
   \<and> bind_extra_mounts demo_chroot = PList []
   \<and> json_stable (PDict (to_dict demo_chroot))
   \<and> get_atom_path demo_collaborators (config (the_instance demo_chroot)) (relative_path demo_chroot)
       = Inr ''/atoms/0a1b.atom''
   \<and> writable demo_world ''/atoms/0a1b.atom/atom.json''
   \<and> (\<exists>w' b. save demo_collaborators demo_chroot demo_world = (Inr (), w')
         \<and> load demo_collaborators w' demo_instance (PStr ''0a1b.atom'') = Inr b
         \<and> to_dict b = to_dict demo_chroot)"
proof -
  have 1: "container_id demo_chroot = PNone" and 2: "\<not> truthy (system_shell demo_chroot)"
    and 3: "name demo_chroot = PStr ''test''" and 4: "strip ''test'' = ''test''"
    and 5: "distribution_id demo_chroot \<noteq> PNone" "relative_path demo_chroot \<noteq> PNone"
      "creation_date demo_chroot \<noteq> PNone" "update_date demo_chroot \<noteq> PNone"
    and 6: "bind_extra_mounts demo_chroot = PList []"
    and 7: "json_stable (PDict (to_dict demo_chroot))"
    and 8: "get_atom_path demo_collaborators (config (the_instance demo_chroot))
              (relative_path demo_chroot) = Inr ''/atoms/0a1b.atom''"
    and 9: "writable demo_world (os_path_join ''/atoms/0a1b.atom'' ''atom.json'')"
    and 10: "orjson_encodable demo_collaborators (PDict (to_dict demo_chroot))"
    by (simp_all add: demo_defs strip_def is_space_def to_dict_def os_path_join_def)
  from 6 have m: "truthy (bind_extra_mounts demo_chroot) \<or> bind_extra_mounts demo_chroot = PList []"
    by simp
  from save_load_roundtrip [OF 1 2 3 4 5 m 7 8 9 10]
  obtain w' b where "save demo_collaborators demo_chroot demo_world = (Inr (), w')"
    and "load demo_collaborators w' (the_instance demo_chroot) (relative_path demo_chroot) = Inr b"
    and "to_dict b = to_dict demo_chroot"
    by blast
  then have "\<exists>w' b. save demo_collaborators demo_chroot demo_world = (Inr (), w')
         \<and> load demo_collaborators w' demo_instance (PStr ''0a1b.atom'') = Inr b
         \<and> to_dict b = to_dict demo_chroot"
    by (auto simp: demo_chroot_def)
  moreover from 9 have "writable demo_world ''/atoms/0a1b.atom/atom.json''"
    by (simp add: os_path_join_def)
  ultimately show ?thesis using demo_legacy_loaded 1 2 3 4 6 7 8 by blast
qed

text \<open>
  The claim as stated, for every chroot entity with a relative path, fails for an entity
  whose name is not trimmed: \<open>rename\<close> stores the new name as given, \<open>save\<close> writes it,
  and the constructor called by \<open>from_dict\<close> strips it.
\<close>

theorem roundtrip_untrimmed_name_counterexample:
  "container_id demo_renamed = PNone
   \<and> system_shell demo_renamed = PBool False
   \<and> relative_path demo_renamed = PStr ''0a1b.atom''
   \<and> name demo_renamed = PStr '' x ''
   \<and> fst (save demo_collaborators demo_renamed demo_world) = Inr ()
   \<and> map_sum id name
        (load demo_collaborators (snd (save demo_collaborators demo_renamed demo_world))
           demo_instance (relative_path demo_renamed)) = Inr (PStr ''x'')"
proof -
  have stable: "json_stable (PDict (to_dict demo_renamed))"
    by (simp add: to_dict_def demo_defs)
  have path: "get_atom_path demo_collaborators (config demo_instance) (relative_path demo_renamed) = Inr ''/atoms/0a1b.atom''"
    by (simp add: demo_defs os_path_join_def)
  have written: "files (snd (save demo_collaborators demo_renamed demo_world)) (os_path_join ''/atoms/0a1b.atom'' ''atom.json'')
      = Some (Json_doc (to_json (PDict (to_dict demo_renamed))))"
    by (simp add: demo_save_renamed os_path_join_def)
  have "load demo_collaborators (snd (save demo_collaborators demo_renamed demo_world))
           demo_instance (relative_path demo_renamed)
        = from_dict (snd (save demo_collaborators demo_renamed demo_world)) demo_instance (to_dict demo_renamed)"
    using path written orjson_loads_to_json [OF stable] by (rule load_reads_dict)
  also have "\<dots> = Inr (demo_chroot\<lparr>name := PStr (strip '' x '')\<rparr>)"
    by (subst from_dict_to_dict [of _ "'' x ''"]) (simp_all add: demo_defs py_or_def)
  finally show ?thesis
    by (simp add: demo_save_renamed) (simp add: demo_defs strip_def is_space_def)
qed

section \<open>Saving an entity that is no chroot\<close>

text \<open>
  \<^bold>\<open>C3\<close>. \<open>save\<close> on a container or on the system shell fails before any file is
  opened: the world is returned as it was. The error raised is not the one the
  \<^verbatim>\<open>raise\<close> statement names: \<^verbatim>\<open>AtomsCannotSavePodmanContainers\<close> is not a name of the
  module, so the statement ends in a \<^verbatim>\<open>NameError\<close>. Evaluated on the container that
  \<^verbatim>\<open>load_from_container\<close> builds and on the system shell:
\<close>

theorem save_container_raises_NameError:
  "save demo_collaborators demo_container demo_world =
     (Inl (NameError ''AtomsCannotSavePodmanContainers''), demo_world)
   \<and> save demo_collaborators demo_shell demo_world =
     (Inl (NameError ''AtomsCannotSavePodmanContainers''), demo_world)"
  by (simp add: save_def not_chroot_def is_distrobox_container_def demo_container_def demo_shell_def)

section \<open>The name at construction\<close>

text \<open>
  \<^bold>\<open>C4\<close>, as the code has it. The constructor rejects no string: for every input name
  it builds the entity, and the stored name is the input with leading and trailing
  whitespace removed, which is the empty string when the input is empty or blank. The name
  \<^verbatim>\<open>" test "\<close> is stored as \<^verbatim>\<open>"test"\<close>.
\<close>

theorem init_stores_stripped_name:
  "(\<exists>a. init w inst (PStr n) d r cd ud cid img sh bt bi bf bem = Inr a \<and> name a = PStr (strip n))
   \<and> strip '' test '' = ''test''"
  by (simp add: init_str strip_test)

text \<open>
  The claim as stated, that a name which is empty after trimming is rejected, fails: a
  name of two spaces constructs an entity whose name is empty.
\<close>

theorem init_keeps_blank_name_counterexample:
  "init demo_world demo_instance (PStr ''  '') (PStr ''ubuntu'') (PStr ''0a1b.atom'')
     (PStr ''2022-08-01T10:00:00.000001'') PNone PNone PNone (PBool False)
     (PBool False) (PBool False) (PBool False) (PList []) = Inr (demo_chroot\<lparr>name := PStr []\<rparr>)
   \<and> strip ''  '' = []"
  by (simp add: init_def py_or_def demo_chroot_def strip_def is_space_def)

section \<open>Loading a manifest\<close>

text \<open>
  \<^bold>\<open>C5\<close>. When one of the keys \<^verbatim>\<open>name\<close>, \<^verbatim>\<open>distributionId\<close>, \<^verbatim>\<open>creationDate\<close>,
  \<^verbatim>\<open>updateDate\<close>, \<^verbatim>\<open>relativePath\<close> is missing from a manifest record, \<open>from_dict\<close>
  raises \<^verbatim>\<open>AtomsWrongAtomData\<close> with the record and returns no entity, and so does
  \<open>load\<close> on a manifest file holding that record; when the manifest file does not
  exist, \<open>load\<close> raises \<^verbatim>\<open>AtomsConfigFileNotFound\<close> with its path.
\<close>

theorem load_rejects_incomplete_manifest:
  assumes "k \<in> {''name'', ''distributionId'', ''creationDate'', ''updateDate'', ''relativePath''}"
    and "\<not> dict_contains data k"
    and "get_atom_path C (config inst) rel = Inr p"
  shows "from_dict w inst data = Inl (AtomsWrongAtomData data)
       \<and> (files w (os_path_join p ''atom.json'') = Some (Json_doc j) \<and> orjson_loads j = PDict data
            \<longrightarrow> load C w inst rel = Inl (AtomsWrongAtomData data))
       \<and> (files w (os_path_join p ''atom.json'') = None
            \<longrightarrow> load C w inst rel = Inl (AtomsConfigFileNotFound (os_path_join p ''atom.json'')))"
  using from_dict_missing [OF assms(1,2)] load_reads_dict [OF assms(3)] load_absent [OF assms(3)]
  by auto

theorem load_rejects_incomplete_manifest_witness:
  "''creationDate'' \<in> {''name'', ''distributionId'', ''creationDate'', ''updateDate'', ''relativePath''}
   \<and> \<not> dict_contains demo_incomplete_data ''creationDate''
   \<and> get_atom_path demo_collaborators (config demo_instance) (PStr ''0a1b.atom'') = Inr ''/atoms/0a1b.atom''
   \<and> from_dict demo_world demo_instance demo_incomplete_data = Inl (AtomsWrongAtomData demo_incomplete_data)
   \<and> load demo_collaborators
        (demo_world\<lparr>files := [''/atoms/0a1b.atom/atom.json'' \<mapsto> Json_doc (to_json (PDict demo_incomplete_data))]\<rparr>)
        demo_instance (PStr ''0a1b.atom'') = Inl (AtomsWrongAtomData demo_incomplete_data)
   \<and> load demo_collaborators demo_world demo_instance (PStr ''0a1b.atom'')
       = Inl (AtomsConfigFileNotFound ''/atoms/0a1b.atom/atom.json'')"
proof -
  let ?w = "demo_world\<lparr>files := [''/atoms/0a1b.atom/atom.json'' \<mapsto> Json_doc (to_json (PDict demo_incomplete_data))]\<rparr>"
  have 1: "''creationDate'' \<in> {''name'', ''distributionId'', ''creationDate'', ''updateDate'', ''relativePath''}"
    by simp
  have 2: "\<not> dict_contains demo_incomplete_data ''creationDate''"
    by (simp add: dict_contains_def demo_incomplete_data_def)
  note 3 = demo_path
  have j: "os_path_join ''/atoms/0a1b.atom'' ''atom.json'' = ''/atoms/0a1b.atom/atom.json''"
    by (simp add: os_path_join_def)
  have stable: "orjson_loads (to_json (PDict demo_incomplete_data)) = PDict demo_incomplete_data"
    by (rule orjson_loads_to_json) (simp add: demo_incomplete_data_def)
  from load_rejects_incomplete_manifest [OF 1 2 3, of ?w "to_json (PDict demo_incomplete_data)"] stable
  have a: "load demo_collaborators ?w demo_instance (PStr ''0a1b.atom'') = Inl (AtomsWrongAtomData demo_incomplete_data)"
    by (simp add: j)
  from load_rejects_incomplete_manifest [OF 1 2 3, of demo_world]
  have b: "from_dict demo_world demo_instance demo_incomplete_data = Inl (AtomsWrongAtomData demo_incomplete_data)"
    and c: "load demo_collaborators demo_world demo_instance (PStr ''0a1b.atom'')
       = Inl (AtomsConfigFileNotFound ''/atoms/0a1b.atom/atom.json'')"
    by (simp_all add: j) (simp_all add: demo_world_def)
  from 1 2 3 a b c show ?thesis by blast
qed

section \<open>Renaming\<close>

text \<open>
  \<^bold>\<open>C6\<close>. \<open>rename\<close> on a container fails and leaves the name and the world as they
  were, but the error is a \<^verbatim>\<open>NameError\<close>: \<^verbatim>\<open>AtomsCannotRenamePodmanContainers\<close> is not
  a name of the module. (On a chroot, \<open>rename_chroot\<close> above: the name is replaced and
  the manifest is written again.) Evaluated on the container that
  \<^verbatim>\<open>load_from_container\<close> builds:
\<close>

theorem rename_container_raises_NameError:
  "rename demo_collaborators demo_container (PStr ''renamed'') demo_world =
     (Inl (NameError ''AtomsCannotRenamePodmanContainers''), demo_container, demo_world)"
  by (simp add: rename_def not_chroot_def is_distrobox_container_def demo_container_def)

section \<open>The command of a container\<close>

text \<open>
  \<^bold>\<open>C7\<close>. For a container entity (its container id is set, and the constructor has
  created the wrapper object, as it does for every non-empty id) and a command that the
  container-runtime wrapper turns into a command list, \<open>generate_command\<close> returns a
  triple: the command is the wrapped command, behind \<^verbatim>\<open>sh\<close> and the launcher script
  when the exit is tracked; the environment is the one given, or the empty list for
  \<^verbatim>\<open>None\<close>; the working directory is the entity's \<open>root_path\<close>, which is the empty
  string for a container.
\<close>

theorem distrobox_command_working_directory:
  assumes "is_distrobox_container a" and "distrobox_wrapper a"
    and "get_distrobox_command_for_container C (container_id a) command = Inr (PList ys)"
  shows "root_path C a = Inr []
       \<and> generate_command C a command environment track_exit w =
           (if truthy track_exit
            then (Inr (PList (PStr ''sh'' # PStr (fst (get_launcher_script w)) # ys),
                       (if environment = PNone then PList [] else environment), PStr []),
                  snd (get_launcher_script w))
            else (Inr (PList ys, (if environment = PNone then PList [] else environment), PStr []),
                  w))"
proof -
  from assms(1) have rp: "root_path C a = Inr []"
    by (simp add: root_path_def not_chroot_def)
  with assms have "generate_distrobox_command C a command environment =
      Inr (PList ys, (if environment = PNone then PList [] else environment), PStr [])"
    by (simp add: generate_distrobox_command_def raising_def Let_def)
  with assms(1) rp show ?thesis
    by (simp add: generate_command_def list_concat_def raising_def split: prod.splits)
qed

theorem distrobox_command_working_directory_witness:
  "is_distrobox_container demo_container \<and> distrobox_wrapper demo_container
   \<and> get_distrobox_command_for_container demo_collaborators (container_id demo_container)
        (PList [PStr ''ls'']) = Inr (PList [PStr ''distrobox'', PStr ''4f2c'', PStr ''ls''])
   \<and> root_path demo_collaborators demo_container = Inr []
   \<and> generate_command demo_collaborators demo_container (PList [PStr ''ls'']) PNone (PBool True) demo_world
       = (Inr (PList [PStr ''sh'', PStr ''/tmp/tmp'', PStr ''distrobox'', PStr ''4f2c'', PStr ''ls''],
               PList [], PStr []),
          demo_world\<lparr>files := [''/tmp/tmp'' \<mapsto> Other_bytes launcher_script], tmp_count := 1\<rparr>)
   \<and> generate_command demo_collaborators demo_container (PList [PStr ''ls'']) PNone (PBool False) demo_world
       = (Inr (PList [PStr ''distrobox'', PStr ''4f2c'', PStr ''ls''], PList [], PStr []), demo_world)"
proof -
  have 1: "is_distrobox_container demo_container" and 2: "distrobox_wrapper demo_container"
    and 3: "get_distrobox_command_for_container demo_collaborators (container_id demo_container)
        (PList [PStr ''ls'']) = Inr (PList [PStr ''distrobox'', PStr ''4f2c'', PStr ''ls''])"
    by (simp_all add: is_distrobox_container_def demo_container_def demo_collaborators_def raising_def)
  note t = distrobox_command_working_directory [OF 1 2 3, of PNone _ demo_world]
  from t [of "PBool True"] t [of "PBool False"] 1 2 3 show ?thesis
    by (simp add: get_launcher_script_def demo_world_def Let_def)
qed

section \<open>The bind mounts\<close>

text \<open>
  \<^bold>\<open>C8\<close>, as the code has it. For every value of the three bind flags and every list
  of extra mounts, \<open>bind_mounts\<close> returns the themes pair if \<open>bind_themes\<close> is set,
  then the icons pair if \<open>bind_icons\<close> is set, then the fonts pair if \<open>bind_fonts\<close> is
  set, followed by the extra mounts in their order. The returned list contains the themes
  pair if and only if \<open>bind_themes\<close> is set or the extra mounts contain that pair, and
  likewise for the icons and the fonts pair.
\<close>

theorem bind_mounts_resolved:
  assumes "bind_extra_mounts a = PList xs"
  shows "\<exists>ms. bind_mounts a = Inr ms
       \<and> ms = (if truthy (bind_themes a)
               then [PTuple [PStr ''/usr/share/themes'', PStr ''/usr/share/themes'']] else [])
            @ (if truthy (bind_icons a)
               then [PTuple [PStr ''/usr/share/icons'', PStr ''/usr/share/icons'']] else [])
            @ (if truthy (bind_fonts a)
               then [PTuple [PStr ''/usr/share/fonts'', PStr ''/usr/share/fonts'']] else [])
            @ xs
       \<and> (PTuple [PStr ''/usr/share/themes'', PStr ''/usr/share/themes''] \<in> set ms \<longleftrightarrow>
            truthy (bind_themes a)
            \<or> PTuple [PStr ''/usr/share/themes'', PStr ''/usr/share/themes''] \<in> set xs)
       \<and> (PTuple [PStr ''/usr/share/icons'', PStr ''/usr/share/icons''] \<in> set ms \<longleftrightarrow>
            truthy (bind_icons a)
            \<or> PTuple [PStr ''/usr/share/icons'', PStr ''/usr/share/icons''] \<in> set xs)
       \<and> (PTuple [PStr ''/usr/share/fonts'', PStr ''/usr/share/fonts''] \<in> set ms \<longleftrightarrow>
            truthy (bind_fonts a)
            \<or> PTuple [PStr ''/usr/share/fonts'', PStr ''/usr/share/fonts''] \<in> set xs)"
proof -
  have "bind_mounts a =
           Inr ((if truthy (bind_themes a) then [themes_mount] else [])
                @ (if truthy (bind_icons a) then [icons_mount] else [])
                @ (if truthy (bind_fonts a) then [fonts_mount] else [])
                @ xs)"
    using assms by (cases xs) (simp_all add: bind_mounts_def raising_def Let_def)
  then show ?thesis
    by (simp add: themes_mount_def icons_mount_def fonts_mount_def)
qed

theorem bind_mounts_resolved_witness:
  "bind_extra_mounts demo_mounted = PList [PList [PStr ''/srv/data'', PStr ''/data'']]
   \<and> truthy (bind_themes demo_mounted)
   \<and> \<not> truthy (bind_icons demo_mounted)
   \<and> truthy (bind_fonts demo_mounted)
   \<and> bind_mounts demo_mounted =
       Inr [PTuple [PStr ''/usr/share/themes'', PStr ''/usr/share/themes''],
            PTuple [PStr ''/usr/share/fonts'', PStr ''/usr/share/fonts''],
            PList [PStr ''/srv/data'', PStr ''/data'']]"
proof -
  have 1: "bind_extra_mounts demo_mounted = PList [PList [PStr ''/srv/data'', PStr ''/data'']]"
    and 2: "truthy (bind_themes demo_mounted)" "\<not> truthy (bind_icons demo_mounted)"
      "truthy (bind_fonts demo_mounted)"
    by (simp_all add: demo_mounted_def demo_chroot_def)
  from bind_mounts_resolved [OF 1] 1 2 show ?thesis by auto
qed

text \<open>
  The claim as stated, that the resolved list contains the themes pair if and only if
  \<open>bind_themes\<close> is set, fails when the extra mounts hold that pair: the extra mounts are
  appended as they are.
\<close>

theorem bind_mounts_extras_hold_themes_counterexample:
  "bind_themes demo_themes_in_extras = PBool False
   \<and> bind_extra_mounts demo_themes_in_extras =
       PList [PTuple [PStr ''/usr/share/themes'', PStr ''/usr/share/themes'']]
   \<and> bind_mounts demo_themes_in_extras =
       Inr [PTuple [PStr ''/usr/share/themes'', PStr ''/usr/share/themes'']]"
  by (simp add: demo_themes_in_extras_def demo_chroot_def bind_mounts_def raising_def)

section \<open>What persistence reconstructs\<close>

text \<open>
  \<^bold>\<open>C9\<close>. Every entity that \<open>from_dict\<close> or \<open>load\<close> returns has no container id
  and a false pass-through flag: it reports neither \<open>is_distrobox_container\<close> nor
  \<open>is_system_shell\<close>, and \<open>generate_command\<close> takes the chroot branch for it.
\<close>

theorem loaded_atom_is_chroot:
  assumes "from_dict w inst data = Inr a \<or> load C w inst rel = Inr a"
  shows "container_id a = PNone
       \<and> system_shell a = PBool False
       \<and> \<not> is_distrobox_container a
       \<and> is_system_shell a = PBool False
       \<and> \<not> not_chroot a
       \<and> fst (generate_command C' a command environment (PBool False) w') =
           generate_proot_command C' a command environment"
proof -
  from assms obtain data' where "from_dict w inst data' = Inr a"
    using load_Inr by blast
  then have "container_id a = PNone" and "system_shell a = PBool False"
    by (rule from_dict_Inr)+
  then show ?thesis
    by (simp add: is_distrobox_container_def is_system_shell_def not_chroot_def
        generate_command_untracked)
qed

theorem loaded_atom_is_chroot_witness:
  "from_dict demo_world demo_instance (to_dict demo_chroot) = Inr demo_chroot
   \<and> container_id demo_chroot = PNone
   \<and> system_shell demo_chroot = PBool False
   \<and> \<not> is_distrobox_container demo_chroot
   \<and> is_system_shell demo_chroot = PBool False
   \<and> fst (generate_command demo_collaborators demo_chroot (PList [PStr ''ls'']) PNone (PBool False)
            demo_world)
       = Inr (PList [PStr ''proot'', PStr ''/atoms/0a1b.atom/chroot'', PStr ''ls''], PList [],
              PStr ''/atoms/0a1b.atom/chroot/root'')"
proof -
  have 1: "from_dict demo_world demo_instance (to_dict demo_chroot) = Inr demo_chroot"
    by (subst from_dict_to_dict [of _ "''test''"])
      (simp_all add: demo_chroot_def py_or_def strip_def is_space_def)
  then have h: "from_dict demo_world demo_instance (to_dict demo_chroot) = Inr demo_chroot
      \<or> load demo_collaborators demo_world demo_instance PNone = Inr demo_chroot"
    by simp
  have p: "generate_proot_command demo_collaborators demo_chroot (PList [PStr ''ls'']) PNone
      = Inr (PList [PStr ''proot'', PStr ''/atoms/0a1b.atom/chroot'', PStr ''ls''], PList [],
              PStr ''/atoms/0a1b.atom/chroot/root'')"
    by (simp add: generate_proot_command_def fs_path_def root_path_def not_chroot_def
        is_distrobox_container_def bind_mounts_def raising_def Let_def os_path_join_def demo_defs)
  from loaded_atom_is_chroot [OF h, of demo_collaborators "PList [PStr ''ls'']" PNone demo_world] 1 p
  show ?thesis by simp
qed

section \<open>The bind-mount setters on an entity that is no chroot\<close>

text \<open>
  \<^bold>\<open>C10\<close>. Each of \<open>set_bind_themes\<close>, \<open>set_bind_icons\<close> and \<open>set_bind_fonts\<close>
  assigns the flag before it calls \<open>save\<close>. On a container or the system shell the
  call raises from the backend test of \<open>save\<close>, writes nothing, and leaves the entity
  with the new value of the flag.
\<close>

theorem bind_setters_not_atomic:
  assumes "not_chroot a"
  shows "set_bind_themes C a status w =
           (Inl (NameError ''AtomsCannotSavePodmanContainers''), a\<lparr>bind_themes := status\<rparr>, w)
       \<and> set_bind_icons C a status w =
           (Inl (NameError ''AtomsCannotSavePodmanContainers''), a\<lparr>bind_icons := status\<rparr>, w)
       \<and> set_bind_fonts C a status w =
           (Inl (NameError ''AtomsCannotSavePodmanContainers''), a\<lparr>bind_fonts := status\<rparr>, w)"
  using assms
  by (simp add: set_bind_themes_def set_bind_icons_def set_bind_fonts_def save_not_chroot Let_def)

theorem bind_setters_not_atomic_witness:
  "not_chroot demo_container
   \<and> bind_themes demo_container = PBool False
   \<and> set_bind_themes demo_collaborators demo_container (PBool True) demo_world =
       (Inl (NameError ''AtomsCannotSavePodmanContainers''),
        demo_container\<lparr>bind_themes := PBool True\<rparr>, demo_world)
   \<and> demo_container\<lparr>bind_themes := PBool True\<rparr> \<noteq> demo_container
   \<and> not_chroot demo_shell
   \<and> set_bind_fonts demo_collaborators demo_shell (PBool True) demo_world =
       (Inl (NameError ''AtomsCannotSavePodmanContainers''),
        demo_shell\<lparr>bind_fonts := PBool True\<rparr>, demo_world)"
proof -
  have 1: "not_chroot demo_container" and 2: "not_chroot demo_shell"
    by (simp_all add: not_chroot_def is_distrobox_container_def demo_container_def demo_shell_def)
  have 3: "bind_themes demo_container = PBool False"
    and 4: "demo_container\<lparr>bind_themes := PBool True\<rparr> \<noteq> demo_container"
    by (simp_all add: demo_container_def)
  from bind_setters_not_atomic [OF 1, of demo_collaborators "PBool True" demo_world]
    bind_setters_not_atomic [OF 2, of demo_collaborators "PBool True" demo_world] 1 2 3 4
  show ?thesis by blast
qed

end
